theory Spec2Isabelle
  imports Main "HOL-Library.Monad_Syntax"
begin

section \<open>The clusterlogforwarder builder of pkg/clusterlogging\<close>

text \<open>
  The builder of \<^verbatim>\<open>pkg/clusterlogging/clusterlogforwarder.go\<close> pairs a definition of
  a ClusterLogForwarder with the object last read from the cluster and an API client.
  Its methods are embedded as functions that pass the builder and the cluster along:
  \<^item> a Go pointer is an \<open>option\<close>, with \<open>None\<close> for \<^verbatim>\<open>nil\<close>; the resource a pointer
    refers to is modelled by its contents;
  \<^item> the API client is the record of its four remote operations, each a function on an
    arbitrary cluster state \<open>'w\<close> that answers with an error or nil; what an operation
    writes into the object it is handed is kept for the fetch only, whose object is the
    result. Every remote operation that is issued is appended to the list \<open>calls\<close>, so
    that "no remote call" is a statement about that list;
  \<^item> a method returns \<open>None\<close> where the Go code would panic on a nil pointer
    dereference, and \<open>Some\<close> of its results, the receiver after the call and the cluster
    otherwise;
  \<^item> the \<^verbatim>\<open>glog\<close> lines only read fields; the reads are kept, the output is not.
\<close>

subsection \<open>Data\<close>

type_synonym 'a ptr = "'a option"

text \<open>\<^verbatim>\<open>clov1.ClusterLogForwarder\<close>: name and namespace of the object metadata, and the
  forwarder's own fields, which the builder never inspects.\<close>

record 's ClusterLogForwarder =
  Name :: string
  Namespace :: string
  Spec :: 's

datatype ObjectKey = ObjectKey (keyName: string) (keyNamespace: string)

text \<open>
  Go errors. \<open>StatusNotFound\<close> and \<open>ClientError\<close> are what the API client answers,
  \<open>Errorf\<close> is \<^verbatim>\<open>fmt.Errorf\<close> of a plain text, \<open>Wrapf\<close> is \<^verbatim>\<open>fmt.Errorf\<close> with
  \<^verbatim>\<open>%w\<close>, and \<open>UndefinedCrdObject crd\<close> is
  \<^verbatim>\<open>fmt.Errorf(msg.UndefinedCrdObjectErrString(crd))\<close>, whose text is made by package
  \<^verbatim>\<open>msg\<close>.
\<close>

datatype error =
    StatusNotFound string
  | ClientError string
  | Errorf string
  | UndefinedCrdObject string
  | Wrapf string error

text \<open>\<^verbatim>\<open>k8serrors.IsNotFound\<close>: false on \<^verbatim>\<open>nil\<close>, and looks through wrapping.\<close>

primrec reasonNotFound :: "error \<Rightarrow> bool" where
  "reasonNotFound (StatusNotFound m) = True"
| "reasonNotFound (ClientError m) = False"
| "reasonNotFound (Errorf m) = False"
| "reasonNotFound (UndefinedCrdObject m) = False"
| "reasonNotFound (Wrapf m e) = reasonNotFound e"

definition IsNotFound :: "error option \<Rightarrow> bool" where
  "IsNotFound err = (case err of None \<Rightarrow> False | Some e \<Rightarrow> reasonNotFound e)"

text \<open>\<^verbatim>\<open>clients.Settings\<close>, as far as the builder uses it: the four operations of the
  embedded controller-runtime client. \<open>clientGet\<close> answers with the error and the contents
  of the object it was given to fill.\<close>

record ('s, 'w) Settings =
  clientGet :: "ObjectKey \<Rightarrow> 'w \<Rightarrow> (error option \<times> 's ClusterLogForwarder) \<times> 'w"
  clientCreate :: "'s ClusterLogForwarder \<Rightarrow> 'w \<Rightarrow> error option \<times> 'w"
  clientUpdate :: "'s ClusterLogForwarder \<Rightarrow> 'w \<Rightarrow> error option \<times> 'w"
  clientDelete :: "'s ClusterLogForwarder \<Rightarrow> 'w \<Rightarrow> error option \<times> 'w"

datatype 's call =
    CallGet ObjectKey
  | CallCreate "'s ClusterLogForwarder"
  | CallUpdate "'s ClusterLogForwarder"
  | CallDelete "'s ClusterLogForwarder"

record ('s, 'w) remote =
  cluster :: 'w
  calls :: "'s call list"

record ('s, 'w) ClusterLogForwarderBuilder =
  Definition :: "'s ClusterLogForwarder ptr"
  Object :: "'s ClusterLogForwarder ptr"
  apiClient :: "('s, 'w) Settings ptr"
  errorMsg :: string

subsection \<open>Remote operations\<close>

definition apiGet ::
  "('s, 'w) Settings \<Rightarrow> ObjectKey \<Rightarrow> ('s, 'w) remote
    \<Rightarrow> (error option \<times> 's ClusterLogForwarder) \<times> ('s, 'w) remote" where
  "apiGet c k r =
     (let (res, w) = clientGet c k (cluster r)
      in (res, \<lparr>cluster = w, calls = calls r @ [CallGet k]\<rparr>))"

definition apiCreate ::
  "('s, 'w) Settings \<Rightarrow> 's ClusterLogForwarder \<Rightarrow> ('s, 'w) remote
    \<Rightarrow> error option \<times> ('s, 'w) remote" where
  "apiCreate c d r =
     (let (err, w) = clientCreate c d (cluster r)
      in (err, \<lparr>cluster = w, calls = calls r @ [CallCreate d]\<rparr>))"

definition apiUpdate ::
  "('s, 'w) Settings \<Rightarrow> 's ClusterLogForwarder \<Rightarrow> ('s, 'w) remote
    \<Rightarrow> error option \<times> ('s, 'w) remote" where
  "apiUpdate c d r =
     (let (err, w) = clientUpdate c d (cluster r)
      in (err, \<lparr>cluster = w, calls = calls r @ [CallUpdate d]\<rparr>))"

definition apiDelete ::
  "('s, 'w) Settings \<Rightarrow> 's ClusterLogForwarder \<Rightarrow> ('s, 'w) remote
    \<Rightarrow> error option \<times> ('s, 'w) remote" where
  "apiDelete c d r =
     (let (err, w) = clientDelete c d (cluster r)
      in (err, \<lparr>cluster = w, calls = calls r @ [CallDelete d]\<rparr>))"

subsection \<open>The builder's methods\<close>

definition resourceCRD :: string where
  "resourceCRD = ''ClusterLogForwarder''"

definition validate ::
  "('s, 'w) ClusterLogForwarderBuilder ptr \<Rightarrow> bool \<times> error option" where
  "validate builder =
     (case builder of
        None \<Rightarrow> (False, Some (Errorf (''error: received nil '' @ resourceCRD @ '' builder'')))
      | Some b \<Rightarrow>
          if Definition b = None then (False, Some (UndefinedCrdObject resourceCRD))
          else if apiClient b = None
            then (False, Some (Errorf (resourceCRD @ '' builder cannot have nil apiClient'')))
          else (True, None))"

definition Get ::
  "('s, 'w) ClusterLogForwarderBuilder ptr \<Rightarrow> ('s, 'w) remote
    \<Rightarrow> (('s ClusterLogForwarder ptr \<times> error option) \<times> ('s, 'w) remote) option" where
  "Get builder r =
     (let (valid, verr) = validate builder in
      if \<not> valid then Some ((None, verr), r)
      else do {
        b \<leftarrow> builder;
        d \<leftarrow> Definition b;
        c \<leftarrow> apiClient b;
        let ((err, clusterLogForwarder), r1) = apiGet c (ObjectKey (Name d) (Namespace d)) r;
        if err \<noteq> None then Some ((None, err), r1)
        else Some ((Some clusterLogForwarder, err), r1)
      })"

definition Exists ::
  "('s, 'w) ClusterLogForwarderBuilder ptr \<Rightarrow> ('s, 'w) remote
    \<Rightarrow> (bool \<times> ('s, 'w) ClusterLogForwarderBuilder ptr \<times> ('s, 'w) remote) option" where
  "Exists builder r =
     (let (valid, verr) = validate builder in
      if \<not> valid then Some (False, builder, r)
      else do {
        b \<leftarrow> builder;
        d \<leftarrow> Definition b;
        ((obj, err), r1) \<leftarrow> Get builder r;
        Some (err = None \<or> \<not> IsNotFound err, Some (b\<lparr>Object := obj\<rparr>), r1)
      })"

definition Create ::
  "('s, 'w) ClusterLogForwarderBuilder ptr \<Rightarrow> ('s, 'w) remote
    \<Rightarrow> ((('s, 'w) ClusterLogForwarderBuilder ptr \<times> error option)
        \<times> ('s, 'w) ClusterLogForwarderBuilder ptr \<times> ('s, 'w) remote) option" where
  "Create builder r =
     (let (valid, verr) = validate builder in
      if \<not> valid then Some ((builder, verr), builder, r)
      else do {
        b \<leftarrow> builder;
        d \<leftarrow> Definition b;
        (ex, builder1, r1) \<leftarrow> Exists builder r;
        if \<not> ex then do {
          b1 \<leftarrow> builder1;
          c \<leftarrow> apiClient b1;
          d1 \<leftarrow> Definition b1;
          let (err, r2) = apiCreate c d1 r1;
          let builder2 = (if err = None then Some (b1\<lparr>Object := Definition b1\<rparr>) else builder1);
          Some ((builder2, err), builder2, r2)
        }
        else Some ((builder1, None), builder1, r1)
      })"

definition Delete ::
  "('s, 'w) ClusterLogForwarderBuilder ptr \<Rightarrow> ('s, 'w) remote
    \<Rightarrow> (error option \<times> ('s, 'w) ClusterLogForwarderBuilder ptr \<times> ('s, 'w) remote) option" where
  "Delete builder r =
     (let (valid, verr) = validate builder in
      if \<not> valid then Some (verr, builder, r)
      else do {
        b \<leftarrow> builder;
        d \<leftarrow> Definition b;
        (ex, builder1, r1) \<leftarrow> Exists builder r;
        if \<not> ex
        then Some (Some (Errorf ''clusterlogforwarder cannot be deleted because it does not exist''),
                   builder1, r1)
        else do {
          b1 \<leftarrow> builder1;
          c \<leftarrow> apiClient b1;
          d1 \<leftarrow> Definition b1;
          let (err, r2) = apiDelete c d1 r1;
          case err of
            Some e \<Rightarrow> Some (Some (Wrapf ''can not delete clusterlogforwarder: '' e), builder1, r2)
          | None \<Rightarrow> Some (None, Some (b1\<lparr>Object := None\<rparr>), r2)
        }
      })"

definition Update ::
  "bool \<Rightarrow> ('s, 'w) ClusterLogForwarderBuilder ptr \<Rightarrow> ('s, 'w) remote
    \<Rightarrow> ((('s, 'w) ClusterLogForwarderBuilder ptr \<times> error option)
        \<times> ('s, 'w) ClusterLogForwarderBuilder ptr \<times> ('s, 'w) remote) option" where
  "Update force builder r =
     (let (valid, verr) = validate builder in
      if \<not> valid then Some ((builder, verr), builder, r)
      else do {
        b \<leftarrow> builder;
        d \<leftarrow> Definition b;
        c \<leftarrow> apiClient b;
        let (err, r1) = apiUpdate c d r;
        if err \<noteq> None \<and> force then do {
          (derr, builder2, r2) \<leftarrow> Delete builder r1;
          if derr \<noteq> None then Some ((None, derr), builder2, r2)
          else Create builder2 r2
        }
        else if err = None
          then Some ((Some (b\<lparr>Object := Definition b\<rparr>), err), Some (b\<lparr>Object := Definition b\<rparr>), r1)
        else Some ((builder, err), builder, r1)
      })"

definition PullClusterLogForwarder ::
  "('s::zero, 'w) Settings ptr \<Rightarrow> string \<Rightarrow> string \<Rightarrow> ('s, 'w) remote
    \<Rightarrow> (('s ClusterLogForwarder ptr \<times> error option) \<times> ('s, 'w) remote) option" where
  "PullClusterLogForwarder client name namespace r =
     (let builder0 = \<lparr>Definition = Some \<lparr>Name = name, Namespace = namespace, Spec = 0\<rparr>,
                      Object = None, apiClient = client, errorMsg = ''''\<rparr>;
          builder1 = (if name = ''''
                      then builder0\<lparr>errorMsg := ''clusterlogforwarder 'name' cannot be empty''\<rparr>
                      else builder0);
          builder2 = (if namespace = ''''
                      then builder1\<lparr>errorMsg := ''clusterlogforwarder 'namespace' cannot be empty''\<rparr>
                      else builder1)
      in do {
        (ex, builder3, r1) \<leftarrow> Exists (Some builder2) r;
        if \<not> ex
        then Some ((None, Some (Errorf (''clusterlogforwarder object '' @ name
                      @ '' doesn't exist in namespace '' @ namespace))), r1)
        else do {
          b3 \<leftarrow> builder3;
          Some ((Object b3, None), r1)
        }
      })"

subsection \<open>The key of a resource\<close>

text \<open>The key under which the builder fetches a resource: the name and namespace of its
  definition.\<close>

definition keyOf :: "'s ClusterLogForwarder \<Rightarrow> ObjectKey" where
  "keyOf d = ObjectKey (Name d) (Namespace d)"

subsection \<open>A cluster in memory, for concrete runs\<close>

text \<open>
  A concrete API client, used where a statement is evaluated on an input: the cluster is
  the list of stored objects, read, created, replaced and removed by name and namespace,
  with a not-found status where the object is missing. The variants refuse an update, or
  an update and a delete, or every operation.
\<close>

definition stored :: "nat ClusterLogForwarder \<Rightarrow> nat ClusterLogForwarder list \<Rightarrow> bool" where
  "stored d w = (keyOf d \<in> set (map keyOf w))"

definition fakeClient :: "(nat, nat ClusterLogForwarder list) Settings" where
  "fakeClient =
     \<lparr>clientGet = (\<lambda>k w. case find (\<lambda>obj. keyOf obj = k) w of
                      None \<Rightarrow> ((Some (StatusNotFound ''not found''),
                                 \<lparr>Name = [], Namespace = [], Spec = 0\<rparr>), w)
                    | Some obj \<Rightarrow> ((None, obj), w)),
      clientCreate = (\<lambda>d w. if stored d w then (Some (ClientError ''already exists''), w)
                             else (None, w @ [d])),
      clientUpdate = (\<lambda>d w. if stored d w
                             then (None, map (\<lambda>obj. if keyOf obj = keyOf d then d else obj) w)
                             else (Some (StatusNotFound ''not found''), w)),
      clientDelete = (\<lambda>d w. if stored d w
                             then (None, filter (\<lambda>obj. keyOf obj \<noteq> keyOf d) w)
                             else (Some (StatusNotFound ''not found''), w))\<rparr>"

definition conflictClient :: "(nat, nat ClusterLogForwarder list) Settings" where
  "conflictClient = fakeClient\<lparr>clientUpdate := (\<lambda>d w. (Some (ClientError ''conflict''), w))\<rparr>"

definition readOnlyClient :: "(nat, nat ClusterLogForwarder list) Settings" where
  "readOnlyClient = conflictClient\<lparr>clientDelete := (\<lambda>d w. (Some (ClientError ''forbidden''), w))\<rparr>"

definition unreachableClient :: "(nat, nat ClusterLogForwarder list) Settings" where
  "unreachableClient =
     \<lparr>clientGet = (\<lambda>k w. ((Some (ClientError ''connection refused''),
                             \<lparr>Name = [], Namespace = [], Spec = 0\<rparr>), w)),
      clientCreate = (\<lambda>d w. (Some (ClientError ''connection refused''), w)),
      clientUpdate = (\<lambda>d w. (Some (ClientError ''connection refused''), w)),
      clientDelete = (\<lambda>d w. (Some (ClientError ''connection refused''), w))\<rparr>"

definition wantedCLF :: "nat ClusterLogForwarder" where
  "wantedCLF = \<lparr>Name = ''instance'', Namespace = ''openshift-logging'', Spec = 1\<rparr>"

definition liveCLF :: "nat ClusterLogForwarder" where
  "liveCLF = \<lparr>Name = ''instance'', Namespace = ''openshift-logging'', Spec = 2\<rparr>"

definition builderFor ::
  "(nat, nat ClusterLogForwarder list) Settings
    \<Rightarrow> (nat, nat ClusterLogForwarder list) ClusterLogForwarderBuilder" where
  "builderFor c = \<lparr>Definition = Some wantedCLF, Object = None, apiClient = Some c, errorMsg = []\<rparr>"

definition clusterOf ::
  "nat ClusterLogForwarder list \<Rightarrow> (nat, nat ClusterLogForwarder list) remote" where
  "clusterOf w = \<lparr>cluster = w, calls = []\<rparr>"

lemmas fixture_defs =
  keyOf_def stored_def fakeClient_def conflictClient_def readOnlyClient_def unreachableClient_def
  wantedCLF_def liveCLF_def builderFor_def clusterOf_def

section \<open>Properties\<close>

subsection \<open>What each method does on a valid builder\<close>

lemma validate_true_iff:
  "fst (validate builder) \<longleftrightarrow>
     (\<exists>b d c. builder = Some b \<and> Definition b = Some d \<and> apiClient b = Some c)"
  by (auto simp: validate_def split: option.splits)

lemma validate_false_err: "\<not> fst (validate builder) \<Longrightarrow> snd (validate builder) \<noteq> None"
  by (auto simp: validate_def split: option.splits)

lemma validate_nil:
  "validate None = (False, Some (Errorf ''error: received nil ClusterLogForwarder builder''))"
  by (simp add: validate_def resourceCRD_def)

lemma Get_valid:
  assumes "builder = Some b" "Definition b = Some d" "apiClient b = Some c"
    and "clientGet c (keyOf d) (cluster r) = ((gerr, fetched), w)"
  shows "Get builder r =
           Some ((if gerr = None then Some fetched else None, gerr),
                 \<lparr>cluster = w, calls = calls r @ [CallGet (keyOf d)]\<rparr>)"
  using assms by (simp add: Get_def validate_def apiGet_def keyOf_def)

lemma Exists_valid:
  assumes "builder = Some b" "Definition b = Some d" "apiClient b = Some c"
    and "clientGet c (keyOf d) (cluster r) = ((gerr, fetched), w)"
  shows "Exists builder r =
           Some (gerr = None \<or> \<not> IsNotFound gerr,
                 Some (b\<lparr>Object := (if gerr = None then Some fetched else None)\<rparr>),
                 \<lparr>cluster = w, calls = calls r @ [CallGet (keyOf d)]\<rparr>)"
  using Get_valid[OF assms] assms(1-3) by (simp add: Exists_def validate_def)

lemma Exists_invalid:
  "\<not> fst (validate builder) \<Longrightarrow> Exists builder r = Some (False, builder, r)"
  by (cases "validate builder") (simp add: Exists_def)

lemma Create_valid:
  assumes "builder = Some b" "Definition b = Some d" "apiClient b = Some c"
    and "clientGet c (keyOf d) (cluster r) = ((gerr, fetched), w1)"
    and "clientCreate c d w1 = (cerr, w2)"
  shows "Create builder r =
           (if gerr = None \<or> \<not> IsNotFound gerr
            then Some ((Some (b\<lparr>Object := (if gerr = None then Some fetched else None)\<rparr>), None),
                       Some (b\<lparr>Object := (if gerr = None then Some fetched else None)\<rparr>),
                       \<lparr>cluster = w1, calls = calls r @ [CallGet (keyOf d)]\<rparr>)
            else Some ((Some (b\<lparr>Object := (if cerr = None then Some d else None)\<rparr>), cerr),
                       Some (b\<lparr>Object := (if cerr = None then Some d else None)\<rparr>),
                       \<lparr>cluster = w2, calls = calls r @ [CallGet (keyOf d), CallCreate d]\<rparr>))"
  using Exists_valid[OF assms(1-4)] assms(1-3,5)
  by (auto simp: Create_def validate_def apiCreate_def IsNotFound_def Let_def)

lemma Delete_valid:
  assumes "builder = Some b" "Definition b = Some d" "apiClient b = Some c"
    and "clientGet c (keyOf d) (cluster r) = ((gerr, fetched), w1)"
    and "clientDelete c d w1 = (derr, w2)"
  shows "Delete builder r =
           (if gerr = None \<or> \<not> IsNotFound gerr
            then (case derr of
                    Some e \<Rightarrow>
                      Some (Some (Wrapf ''can not delete clusterlogforwarder: '' e),
                            Some (b\<lparr>Object := (if gerr = None then Some fetched else None)\<rparr>),
                            \<lparr>cluster = w2, calls = calls r @ [CallGet (keyOf d), CallDelete d]\<rparr>)
                  | None \<Rightarrow>
                      Some (None, Some (b\<lparr>Object := None\<rparr>),
                            \<lparr>cluster = w2, calls = calls r @ [CallGet (keyOf d), CallDelete d]\<rparr>))
            else Some (Some (Errorf ''clusterlogforwarder cannot be deleted because it does not exist''),
                       Some (b\<lparr>Object := None\<rparr>),
                       \<lparr>cluster = w1, calls = calls r @ [CallGet (keyOf d)]\<rparr>))"
  using Exists_valid[OF assms(1-4)] assms(1-3,5)
  by (auto simp: Delete_def validate_def apiDelete_def IsNotFound_def Let_def split: option.splits)

lemma Update_valid:
  assumes "builder = Some b" "Definition b = Some d" "apiClient b = Some c"
    and "clientUpdate c d (cluster r) = (uerr, w1)"
  shows "Update force builder r =
           (if uerr \<noteq> None \<and> force
            then (case Delete builder \<lparr>cluster = w1, calls = calls r @ [CallUpdate d]\<rparr> of
                    None \<Rightarrow> None
                  | Some (derr, builder2, r2) \<Rightarrow>
                      if derr \<noteq> None then Some ((None, derr), builder2, r2)
                      else Create builder2 r2)
            else if uerr = None
              then Some ((Some (b\<lparr>Object := Some d\<rparr>), None), Some (b\<lparr>Object := Some d\<rparr>),
                         \<lparr>cluster = w1, calls = calls r @ [CallUpdate d]\<rparr>)
            else Some ((builder, uerr), builder, \<lparr>cluster = w1, calls = calls r @ [CallUpdate d]\<rparr>))"
  using assms
  by (auto simp: Update_def validate_def apiUpdate_def Let_def split: option.splits)

lemma invalid_builder_no_remote_call:
  assumes "\<not> fst (validate builder)"
  shows "Get builder r = Some ((None, snd (validate builder)), r)"
    and "Exists builder r = Some (False, builder, r)"
    and "Create builder r = Some ((builder, snd (validate builder)), builder, r)"
    and "Delete builder r = Some (snd (validate builder), builder, r)"
    and "Update force builder r = Some ((builder, snd (validate builder)), builder, r)"
  using assms
  by (cases "validate builder"; simp add: Get_def Exists_def Create_def Delete_def Update_def)+

text \<open>No method dereferences a nil pointer: each returns, whatever the builder and the
  cluster are.\<close>

lemma methods_return:
  "Get builder r \<noteq> None" "Exists builder r \<noteq> None" "Create builder r \<noteq> None"
  "Delete builder r \<noteq> None"
proof -
  consider "\<not> fst (validate builder)"
    | b d c where "builder = Some b" "Definition b = Some d" "apiClient b = Some c"
    using validate_true_iff [of builder] by blast
  then have "Get builder r \<noteq> None \<and> Exists builder r \<noteq> None \<and> Create builder r \<noteq> None
      \<and> Delete builder r \<noteq> None"
  proof cases
    case 1
    then show ?thesis
      by (simp add: invalid_builder_no_remote_call)
  next
    case 2
    obtain gerr fetched w1 where g: "clientGet c (keyOf d) (cluster r) = ((gerr, fetched), w1)"
      by (metis surj_pair)
    obtain cerr w2 where k: "clientCreate c d w1 = (cerr, w2)"
      by (metis surj_pair)
    obtain derr w3 where l: "clientDelete c d w1 = (derr, w3)"
      by (metis surj_pair)
    show ?thesis
      unfolding Get_valid [OF 2 g] Exists_valid [OF 2 g] Create_valid [OF 2 g k]
        Delete_valid [OF 2 g l]
      by (simp split: option.splits)
  qed
  then show "Get builder r \<noteq> None" "Exists builder r \<noteq> None" "Create builder r \<noteq> None"
    "Delete builder r \<noteq> None"
    by simp_all
qed

lemma Update_returns: "Update force builder r \<noteq> None"
proof (cases "fst (validate builder)")
  case False
  then show ?thesis
    by (simp add: invalid_builder_no_remote_call)
next
  case True
  then obtain b d c where v: "builder = Some b" "Definition b = Some d" "apiClient b = Some c"
    by (auto simp: validate_true_iff)
  obtain uerr w1 where u: "clientUpdate c d (cluster r) = (uerr, w1)"
    by (metis surj_pair)
  obtain derr builder2 r2 where
    del: "Delete builder \<lparr>cluster = w1, calls = calls r @ [CallUpdate d]\<rparr> = Some (derr, builder2, r2)"
    using methods_return(4) [of builder "\<lparr>cluster = w1, calls = calls r @ [CallUpdate d]\<rparr>"]
    by (metis not_None_eq surj_pair)
  show ?thesis
    unfolding Update_valid [OF v u] del
    using methods_return(3) [of builder2 r2] by simp
qed

subsection \<open>A nil receiver\<close>

text \<open>
  C8. Every method called on a nil builder returns without dereferencing it: \<open>Get\<close>,
  \<open>Create\<close>, \<open>Delete\<close> and \<open>Update\<close> return the error "error: received nil
  ClusterLogForwarder builder", \<open>Exists\<close> returns false, and none of them issues a remote
  call.
\<close>

theorem nil_builder_is_rejected:
  "Get None r = Some ((None, Some (Errorf ''error: received nil ClusterLogForwarder builder'')), r)
   \<and> Create None r
       = Some ((None, Some (Errorf ''error: received nil ClusterLogForwarder builder'')), None, r)
   \<and> Delete None r
       = Some (Some (Errorf ''error: received nil ClusterLogForwarder builder''), None, r)
   \<and> Update force None r
       = Some ((None, Some (Errorf ''error: received nil ClusterLogForwarder builder'')), None, r)
   \<and> Exists None r = Some (False, None, r)"
  by (simp add: Get_def Create_def Delete_def Update_def Exists_def validate_nil)

theorem nil_builder_is_rejected_witness:
  "Get None (clusterOf [liveCLF])
     = Some ((None, Some (Errorf ''error: received nil ClusterLogForwarder builder'')),
             clusterOf [liveCLF])
   \<and> Update True None (clusterOf [liveCLF])
     = Some ((None, Some (Errorf ''error: received nil ClusterLogForwarder builder'')), None,
             clusterOf [liveCLF])
   \<and> Exists None (clusterOf [liveCLF]) = Some (False, None, clusterOf [liveCLF])"
  using nil_builder_is_rejected [of "clusterOf [liveCLF]" True] by simp

subsection \<open>Exists\<close>

text \<open>
  C2. \<open>Exists\<close> returns false when validation of the builder fails, whatever the cluster
  holds, and issues no remote call then. When validation succeeds it returns true exactly
  when its \<open>Get\<close> succeeded or failed with an error that is not a not-found error.
\<close>

theorem Exists_result:
  "(\<not> fst (validate builder) \<longrightarrow> Exists builder r = Some (False, builder, r))
   \<and> (fst (validate builder) \<longrightarrow>
        (\<exists>obj err r1 ex builder1.
            Get builder r = Some ((obj, err), r1)
          \<and> Exists builder r = Some (ex, builder1, r1)
          \<and> (ex \<longleftrightarrow> err = None \<or> (\<exists>e. err = Some e \<and> \<not> IsNotFound (Some e)))))"
proof (intro conjI impI)
  assume "\<not> fst (validate builder)"
  then show "Exists builder r = Some (False, builder, r)"
    by (rule Exists_invalid)
next
  assume "fst (validate builder)"
  then obtain b d c where v: "builder = Some b" "Definition b = Some d" "apiClient b = Some c"
    by (auto simp: validate_true_iff)
  obtain gerr fetched w where g: "clientGet c (keyOf d) (cluster r) = ((gerr, fetched), w)"
    by (metis surj_pair)
  show "\<exists>obj err r1 ex builder1.
            Get builder r = Some ((obj, err), r1)
          \<and> Exists builder r = Some (ex, builder1, r1)
          \<and> (ex \<longleftrightarrow> err = None \<or> (\<exists>e. err = Some e \<and> \<not> IsNotFound (Some e)))"
    unfolding Get_valid [OF v g] Exists_valid [OF v g] by (cases gerr) auto
qed

theorem Exists_result_witness:
  "Exists (Some ((builderFor fakeClient)\<lparr>Definition := None\<rparr>)) (clusterOf [liveCLF])
     = Some (False, Some ((builderFor fakeClient)\<lparr>Definition := None\<rparr>), clusterOf [liveCLF])
   \<and> (\<exists>obj err r1 ex builder1.
          Get (Some (builderFor unreachableClient)) (clusterOf []) = Some ((obj, err), r1)
        \<and> Exists (Some (builderFor unreachableClient)) (clusterOf []) = Some (ex, builder1, r1)
        \<and> (ex \<longleftrightarrow> err = None \<or> (\<exists>e. err = Some e \<and> \<not> IsNotFound (Some e))))"
proof -
  have bad: "\<not> fst (validate (Some ((builderFor fakeClient)\<lparr>Definition := None\<rparr>)
      :: (nat, nat ClusterLogForwarder list) ClusterLogForwarderBuilder ptr))"
    by (simp add: validate_def)
  have good: "fst (validate (Some (builderFor unreachableClient)))"
    by (simp add: validate_def builderFor_def)
  show ?thesis
    using Exists_result [of "Some ((builderFor fakeClient)\<lparr>Definition := None\<rparr>)"
        "clusterOf [liveCLF]"]
      Exists_result [of "Some (builderFor unreachableClient)" "clusterOf []"] bad good
    by blast
qed

text \<open>
  C9. On a valid builder \<open>Exists\<close> overwrites \<open>Object\<close> with what its \<open>Get\<close> returned:
  the object fetched from the cluster when the fetch succeeded, and nil when it failed,
  also when the failure is not a not-found error and \<open>Exists\<close> answers true.
\<close>

theorem Exists_overwrites_Object:
  assumes "fst (validate builder)"
    and "builder = Some b" and "Definition b = Some d" and "apiClient b = Some c"
    and "clientGet c (ObjectKey (Name d) (Namespace d)) (cluster r) = ((gerr, fetched), w)"
  shows "\<exists>ex obj r1.
            Get builder r = Some ((obj, gerr), r1)
          \<and> Exists builder r = Some (ex, Some (b\<lparr>Object := obj\<rparr>), r1)
          \<and> (gerr = None \<longrightarrow> obj = Some fetched)
          \<and> (gerr \<noteq> None \<longrightarrow> obj = None)
          \<and> (gerr \<noteq> None \<and> \<not> IsNotFound gerr \<longrightarrow> ex)"
proof -
  from assms(5) have g: "clientGet c (keyOf d) (cluster r) = ((gerr, fetched), w)"
    by (simp add: keyOf_def)
  show ?thesis
    unfolding Get_valid [OF assms(2-4) g] Exists_valid [OF assms(2-4) g] by simp
qed

theorem Exists_overwrites_Object_witness:
  "\<exists>r1. Get (Some ((builderFor unreachableClient)\<lparr>Object := Some liveCLF\<rparr>)) (clusterOf [liveCLF])
           = Some ((None, Some (ClientError ''connection refused'')), r1)
       \<and> Exists (Some ((builderFor unreachableClient)\<lparr>Object := Some liveCLF\<rparr>))
           (clusterOf [liveCLF])
           = Some (True, Some (builderFor unreachableClient), r1)"
proof -
  let ?b = "(builderFor unreachableClient)\<lparr>Object := Some liveCLF\<rparr>"
  have v: "fst (validate (Some ?b))"
    by (simp add: validate_def builderFor_def)
  have d: "Definition ?b = Some wantedCLF" and c: "apiClient ?b = Some unreachableClient"
    by (simp_all add: builderFor_def)
  have g: "clientGet unreachableClient (ObjectKey (Name wantedCLF) (Namespace wantedCLF))
             (cluster (clusterOf [liveCLF]))
           = ((Some (ClientError ''connection refused''), \<lparr>Name = [], Namespace = [], Spec = 0\<rparr>),
              [liveCLF])"
    by (simp add: unreachableClient_def clusterOf_def)
  have n: "\<not> IsNotFound (Some (ClientError ''connection refused''))"
    by (simp add: IsNotFound_def)
  have o: "?b\<lparr>Object := None\<rparr> = builderFor unreachableClient"
    by (simp add: builderFor_def)
  from Exists_overwrites_Object [OF v refl d c g] n o show ?thesis
    by auto
qed

subsection \<open>Create and Delete\<close>

lemma builderFor_fields:
  "Definition (builderFor c) = Some wantedCLF" "apiClient (builderFor c) = Some c"
  "Object (builderFor c) = None" "fst (validate (Some (builderFor c)))"
  by (simp_all add: builderFor_def validate_def)

lemma fake_get_present:
  "clientGet fakeClient (keyOf wantedCLF) [liveCLF] = ((None, liveCLF), [liveCLF])"
  "clientGet conflictClient (keyOf wantedCLF) [liveCLF] = ((None, liveCLF), [liveCLF])"
  "clientGet readOnlyClient (keyOf wantedCLF) [liveCLF] = ((None, liveCLF), [liveCLF])"
  by (simp_all add: fixture_defs)

lemma fake_get_absent:
  "clientGet fakeClient (keyOf wantedCLF) []
     = ((Some (StatusNotFound ''not found''), \<lparr>Name = [], Namespace = [], Spec = 0\<rparr>), [])"
  "clientGet conflictClient (keyOf wantedCLF) []
     = ((Some (StatusNotFound ''not found''), \<lparr>Name = [], Namespace = [], Spec = 0\<rparr>), [])"
  by (simp_all add: fixture_defs)

lemma fake_Exists_present:
  "Exists (Some (builderFor fakeClient)) (clusterOf [liveCLF])
     = Some (True, Some ((builderFor fakeClient)\<lparr>Object := Some liveCLF\<rparr>),
             \<lparr>cluster = [liveCLF], calls = [CallGet (keyOf wantedCLF)]\<rparr>)"
  "Exists (Some (builderFor readOnlyClient)) (clusterOf [liveCLF])
     = Some (True, Some ((builderFor readOnlyClient)\<lparr>Object := Some liveCLF\<rparr>),
             \<lparr>cluster = [liveCLF], calls = [CallGet (keyOf wantedCLF)]\<rparr>)"
  using Exists_valid [OF refl builderFor_fields(1,2), of fakeClient "clusterOf [liveCLF]"]
    Exists_valid [OF refl builderFor_fields(1,2), of readOnlyClient "clusterOf [liveCLF]"]
  by (simp_all add: fake_get_present clusterOf_def)

lemma fake_Exists_absent:
  "Exists (Some (builderFor fakeClient)) (clusterOf [])
     = Some (False, Some (builderFor fakeClient),
             \<lparr>cluster = [], calls = [CallGet (keyOf wantedCLF)]\<rparr>)"
  using Exists_valid [OF refl builderFor_fields(1,2), of fakeClient "clusterOf []"]
  by (simp add: fake_get_absent clusterOf_def IsNotFound_def builderFor_def)

text \<open>
  C4. \<open>Create\<close> is idempotent. On a valid builder, when \<open>Exists\<close> reports true, \<open>Create\<close>
  issues no remote create (the fetch of \<open>Exists\<close> is its only remote call) and returns the
  builder with a nil error; when \<open>Exists\<close> reports false, the remote create of the
  definition follows the fetch. So a remote create is issued only for a resource that
  does not exist yet.
\<close>

theorem Create_is_idempotent:
  assumes "fst (validate builder)"
    and "builder = Some b" and "Definition b = Some d"
    and "Exists builder r = Some (ex, builder1, r1)"
  shows "(ex \<longrightarrow> Create builder r = Some ((builder1, None), builder1, r1)
               \<and> calls r1 = calls r @ [CallGet (keyOf d)])
       \<and> (\<not> ex \<longrightarrow> (\<exists>err builder2 r2.
                 Create builder r = Some ((builder2, err), builder2, r2)
               \<and> calls r2 = calls r @ [CallGet (keyOf d), CallCreate d]))"
proof -
  from assms(1,2) obtain c where c: "apiClient b = Some c"
    by (auto simp: validate_true_iff)
  obtain gerr fetched w1 where g: "clientGet c (keyOf d) (cluster r) = ((gerr, fetched), w1)"
    by (metis surj_pair)
  obtain cerr w2 where k: "clientCreate c d w1 = (cerr, w2)"
    by (metis surj_pair)
  from assms(4) show ?thesis
    unfolding Exists_valid [OF assms(2,3) c g] Create_valid [OF assms(2,3) c g k]
    by auto
qed

theorem Create_is_idempotent_witness:
  "Create (Some (builderFor fakeClient)) (clusterOf [liveCLF])
     = Some ((Some ((builderFor fakeClient)\<lparr>Object := Some liveCLF\<rparr>), None),
             Some ((builderFor fakeClient)\<lparr>Object := Some liveCLF\<rparr>),
             \<lparr>cluster = [liveCLF], calls = [CallGet (keyOf wantedCLF)]\<rparr>)
   \<and> (\<exists>err builder2 r2.
         Create (Some (builderFor fakeClient)) (clusterOf []) = Some ((builder2, err), builder2, r2)
       \<and> calls r2 = [CallGet (keyOf wantedCLF), CallCreate wantedCLF])"
  using Create_is_idempotent [OF builderFor_fields(4) refl builderFor_fields(1) fake_Exists_present(1)]
    Create_is_idempotent [OF builderFor_fields(4) refl builderFor_fields(1) fake_Exists_absent]
  by (simp add: clusterOf_def)

text \<open>
  C5. On a valid builder, \<open>Delete\<close> of a resource for which \<open>Exists\<close> is false returns the
  error "clusterlogforwarder cannot be deleted because it does not exist" and issues no
  remote delete. When the resource exists and the remote delete fails, the error returned
  is the remote error wrapped under "can not delete clusterlogforwarder: ".
\<close>

theorem Delete_absent_or_failing:
  assumes "fst (validate builder)"
    and "builder = Some b" and "Definition b = Some d" and "apiClient b = Some c"
    and "Exists builder r = Some (ex, builder1, r1)"
  shows "(\<not> ex \<longrightarrow>
            Delete builder r
              = Some (Some (Errorf ''clusterlogforwarder cannot be deleted because it does not exist''),
                      builder1, r1)
          \<and> calls r1 = calls r @ [CallGet (keyOf d)])
       \<and> (ex \<longrightarrow> (\<forall>e w2. clientDelete c d (cluster r1) = (Some e, w2) \<longrightarrow>
            Delete builder r
              = Some (Some (Wrapf ''can not delete clusterlogforwarder: '' e), builder1,
                      \<lparr>cluster = w2, calls = calls r @ [CallGet (keyOf d), CallDelete d]\<rparr>)))"
proof -
  obtain gerr fetched w1 where g: "clientGet c (keyOf d) (cluster r) = ((gerr, fetched), w1)"
    by (metis surj_pair)
  obtain derr w2 where k: "clientDelete c d w1 = (derr, w2)"
    by (metis surj_pair)
  from assms(5) show ?thesis
    unfolding Exists_valid [OF assms(2-4) g] Delete_valid [OF assms(2-4) g k]
    using k by (auto simp: IsNotFound_def)
qed

theorem Delete_absent_or_failing_witness:
  "Delete (Some (builderFor fakeClient)) (clusterOf [])
     = Some (Some (Errorf ''clusterlogforwarder cannot be deleted because it does not exist''),
             Some (builderFor fakeClient),
             \<lparr>cluster = [], calls = [CallGet (keyOf wantedCLF)]\<rparr>)
   \<and> Delete (Some (builderFor readOnlyClient)) (clusterOf [liveCLF])
     = Some (Some (Wrapf ''can not delete clusterlogforwarder: '' (ClientError ''forbidden'')),
             Some ((builderFor readOnlyClient)\<lparr>Object := Some liveCLF\<rparr>),
             \<lparr>cluster = [liveCLF], calls = [CallGet (keyOf wantedCLF), CallDelete wantedCLF]\<rparr>)"
proof -
  have refuse: "clientDelete readOnlyClient wantedCLF
      (cluster \<lparr>cluster = [liveCLF], calls = [CallGet (keyOf wantedCLF)]\<rparr>)
      = (Some (ClientError ''forbidden''), [liveCLF])"
    by (simp add: readOnlyClient_def)
  show ?thesis
    using Delete_absent_or_failing [OF builderFor_fields(4) refl builderFor_fields(1,2)
        fake_Exists_absent]
      Delete_absent_or_failing [OF builderFor_fields(4) refl builderFor_fields(1,2)
        fake_Exists_present(2)] refuse
    by (simp add: clusterOf_def)
qed

subsection \<open>Update\<close>

lemma Delete_returns:
  assumes "builder = Some b" and "Definition b = Some d" and "apiClient b = Some c"
  shows "\<exists>derr obj r2. Delete builder r = Some (derr, Some (b\<lparr>Object := obj\<rparr>), r2)
           \<and> (derr = None \<longrightarrow> obj = None)
           \<and> (calls r2 = calls r @ [CallGet (keyOf d)] \<and> derr \<noteq> None
              \<or> calls r2 = calls r @ [CallGet (keyOf d), CallDelete d])"
proof -
  obtain gerr fetched w1 where g: "clientGet c (keyOf d) (cluster r) = ((gerr, fetched), w1)"
    by (metis surj_pair)
  obtain derr w2 where k: "clientDelete c d w1 = (derr, w2)"
    by (metis surj_pair)
  show ?thesis
    unfolding Delete_valid [OF assms g k] by (cases derr) auto
qed

lemma Create_returns:
  assumes "builder = Some b" and "Definition b = Some d" and "apiClient b = Some c"
  shows "\<exists>err obj r2. Create builder r
             = Some ((Some (b\<lparr>Object := obj\<rparr>), err), Some (b\<lparr>Object := obj\<rparr>), r2)
           \<and> (calls r2 = calls r @ [CallGet (keyOf d)] \<and> err = None
              \<or> calls r2 = calls r @ [CallGet (keyOf d), CallCreate d]
                \<and> (err = None \<longrightarrow> obj = Some d))"
proof -
  obtain gerr fetched w1 where g: "clientGet c (keyOf d) (cluster r) = ((gerr, fetched), w1)"
    by (metis surj_pair)
  obtain cerr w2 where k: "clientCreate c d w1 = (cerr, w2)"
    by (metis surj_pair)
  show ?thesis
    unfolding Create_valid [OF assms g k] by auto
qed

text \<open>
  C6. On a valid builder, when \<open>Update\<close> is called without force and the remote update
  fails, the error of the remote update is returned as it is, with the builder, and the
  update is the only remote call: no remote delete and no remote create.
\<close>

theorem Update_without_force_returns_error:
  assumes "fst (validate builder)"
    and "builder = Some b" and "Definition b = Some d" and "apiClient b = Some c"
    and "clientUpdate c d (cluster r) = (Some e, w1)"
  shows "Update False builder r
           = Some ((builder, Some e), builder, \<lparr>cluster = w1, calls = calls r @ [CallUpdate d]\<rparr>)"
  unfolding Update_valid [OF assms(2-5)] by simp

theorem Update_without_force_returns_error_witness:
  "Update False (Some (builderFor conflictClient)) (clusterOf [liveCLF])
     = Some ((Some (builderFor conflictClient), Some (ClientError ''conflict'')),
             Some (builderFor conflictClient),
             \<lparr>cluster = [liveCLF], calls = [CallUpdate wantedCLF]\<rparr>)"
proof -
  have refuse: "clientUpdate conflictClient wantedCLF (cluster (clusterOf [liveCLF]))
      = (Some (ClientError ''conflict''), [liveCLF])"
    by (simp add: conflictClient_def clusterOf_def)
  show ?thesis
    using Update_without_force_returns_error [OF builderFor_fields(4) refl builderFor_fields(1,2)
        refuse]
    by (simp add: clusterOf_def)
qed

text \<open>
  C3. On a valid builder, when \<open>Update\<close> is called with force and the remote update
  fails, the builder runs \<open>Delete\<close> and then \<open>Create\<close>. If \<open>Delete\<close> fails, its error is
  returned and \<open>Create\<close> is not attempted: the remote calls are the update, the fetch of
  \<open>Exists\<close> and at most the delete. If \<open>Delete\<close> succeeds, the remote delete has been
  issued and the result is that of \<open>Create\<close> on the builder and cluster that \<open>Delete\<close>
  left.
\<close>

theorem Update_force_deletes_then_creates:
  assumes "fst (validate builder)"
    and "builder = Some b" and "Definition b = Some d" and "apiClient b = Some c"
    and "clientUpdate c d (cluster r) = (Some e, w1)"
  shows "\<exists>derr builder2 r2.
            Delete builder \<lparr>cluster = w1, calls = calls r @ [CallUpdate d]\<rparr>
              = Some (derr, builder2, r2)
          \<and> (derr \<noteq> None \<longrightarrow>
                Update True builder r = Some ((None, derr), builder2, r2)
              \<and> (calls r2 = calls r @ [CallUpdate d, CallGet (keyOf d)]
                 \<or> calls r2 = calls r @ [CallUpdate d, CallGet (keyOf d), CallDelete d]))
          \<and> (derr = None \<longrightarrow>
                Update True builder r = Create builder2 r2
              \<and> calls r2 = calls r @ [CallUpdate d, CallGet (keyOf d), CallDelete d]
              \<and> (\<exists>res builder3 r3.
                    Create builder2 r2 = Some (res, builder3, r3)
                  \<and> (calls r3 = calls r2 @ [CallGet (keyOf d)]
                     \<or> calls r3 = calls r2 @ [CallGet (keyOf d), CallCreate d])))"
proof -
  let ?r1 = "\<lparr>cluster = w1, calls = calls r @ [CallUpdate d]\<rparr>"
  from Delete_returns [OF assms(2-4), of ?r1]
  obtain derr obj r2 where
    del: "Delete builder ?r1 = Some (derr, Some (b\<lparr>Object := obj\<rparr>), r2)"
    and tr: "calls r2 = calls ?r1 @ [CallGet (keyOf d)] \<and> derr \<noteq> None
             \<or> calls r2 = calls ?r1 @ [CallGet (keyOf d), CallDelete d]"
    by blast
  have "Definition (b\<lparr>Object := obj\<rparr>) = Some d" "apiClient (b\<lparr>Object := obj\<rparr>) = Some c"
    using assms(3,4) by simp_all
  from Create_returns [OF refl this, of r2]
  obtain res builder3 r3 where
    cr: "Create (Some (b\<lparr>Object := obj\<rparr>)) r2 = Some (res, builder3, r3)"
    and tr3: "calls r3 = calls r2 @ [CallGet (keyOf d)]
              \<or> calls r3 = calls r2 @ [CallGet (keyOf d), CallCreate d]"
    by blast
  have upd: "Update True builder r
      = (if derr \<noteq> None then Some ((None, derr), Some (b\<lparr>Object := obj\<rparr>), r2)
         else Create (Some (b\<lparr>Object := obj\<rparr>)) r2)"
    unfolding Update_valid [OF assms(2-5)] del by simp
  show ?thesis
    using del tr cr tr3 upd by auto
qed

lemma fake_Delete_refused:
  "Delete (Some (builderFor readOnlyClient)) \<lparr>cluster = [liveCLF], calls = [CallUpdate wantedCLF]\<rparr>
     = Some (Some (Wrapf ''can not delete clusterlogforwarder: '' (ClientError ''forbidden'')),
             Some ((builderFor readOnlyClient)\<lparr>Object := Some liveCLF\<rparr>),
             \<lparr>cluster = [liveCLF],
              calls = [CallUpdate wantedCLF, CallGet (keyOf wantedCLF), CallDelete wantedCLF]\<rparr>)"
proof -
  have "clientDelete readOnlyClient wantedCLF [liveCLF] = (Some (ClientError ''forbidden''), [liveCLF])"
    by (simp add: readOnlyClient_def)
  from Delete_valid [OF refl builderFor_fields(1,2) _ this,
      of "\<lparr>cluster = [liveCLF], calls = [CallUpdate wantedCLF]\<rparr>" None liveCLF]
  show ?thesis
    by (simp add: fake_get_present)
qed

lemma fake_Delete_done:
  "Delete (Some (builderFor conflictClient)) \<lparr>cluster = [liveCLF], calls = [CallUpdate wantedCLF]\<rparr>
     = Some (None, Some (builderFor conflictClient),
             \<lparr>cluster = [],
              calls = [CallUpdate wantedCLF, CallGet (keyOf wantedCLF), CallDelete wantedCLF]\<rparr>)"
proof -
  have "clientDelete conflictClient wantedCLF [liveCLF] = (None, [])"
    by (simp add: fixture_defs)
  from Delete_valid [OF refl builderFor_fields(1,2) _ this,
      of "\<lparr>cluster = [liveCLF], calls = [CallUpdate wantedCLF]\<rparr>" None liveCLF]
  show ?thesis
    by (simp add: fake_get_present builderFor_def)
qed

lemma fake_Create_after_Delete:
  "Create (Some (builderFor conflictClient))
       \<lparr>cluster = [],
        calls = [CallUpdate wantedCLF, CallGet (keyOf wantedCLF), CallDelete wantedCLF]\<rparr>
     = Some ((Some ((builderFor conflictClient)\<lparr>Object := Some wantedCLF\<rparr>), None),
             Some ((builderFor conflictClient)\<lparr>Object := Some wantedCLF\<rparr>),
             \<lparr>cluster = [wantedCLF],
              calls = [CallUpdate wantedCLF, CallGet (keyOf wantedCLF), CallDelete wantedCLF,
                       CallGet (keyOf wantedCLF), CallCreate wantedCLF]\<rparr>)"
proof -
  have "clientCreate conflictClient wantedCLF [] = (None, [wantedCLF])"
    by (simp add: fixture_defs)
  from Create_valid [OF refl builderFor_fields(1,2) _ this,
      of "\<lparr>cluster = [],
           calls = [CallUpdate wantedCLF, CallGet (keyOf wantedCLF), CallDelete wantedCLF]\<rparr>"
         "Some (StatusNotFound ''not found'')" "\<lparr>Name = [], Namespace = [], Spec = 0\<rparr>"]
  show ?thesis
    by (simp add: fake_get_absent IsNotFound_def)
qed

lemma fake_update_refused:
  "clientUpdate conflictClient wantedCLF (cluster (clusterOf [liveCLF]))
     = (Some (ClientError ''conflict''), [liveCLF])"
  "clientUpdate readOnlyClient wantedCLF (cluster (clusterOf [liveCLF]))
     = (Some (ClientError ''conflict''), [liveCLF])"
  by (simp_all add: conflictClient_def readOnlyClient_def clusterOf_def)

theorem Update_force_deletes_then_creates_witness:
  "Update True (Some (builderFor readOnlyClient)) (clusterOf [liveCLF])
     = Some ((None, Some (Wrapf ''can not delete clusterlogforwarder: '' (ClientError ''forbidden''))),
             Some ((builderFor readOnlyClient)\<lparr>Object := Some liveCLF\<rparr>),
             \<lparr>cluster = [liveCLF],
              calls = [CallUpdate wantedCLF, CallGet (keyOf wantedCLF), CallDelete wantedCLF]\<rparr>)
   \<and> Update True (Some (builderFor conflictClient)) (clusterOf [liveCLF])
     = Some ((Some ((builderFor conflictClient)\<lparr>Object := Some wantedCLF\<rparr>), None),
             Some ((builderFor conflictClient)\<lparr>Object := Some wantedCLF\<rparr>),
             \<lparr>cluster = [wantedCLF],
              calls = [CallUpdate wantedCLF, CallGet (keyOf wantedCLF), CallDelete wantedCLF,
                       CallGet (keyOf wantedCLF), CallCreate wantedCLF]\<rparr>)"
  using Update_force_deletes_then_creates [OF builderFor_fields(4) refl builderFor_fields(1,2)
      fake_update_refused(2)]
    Update_force_deletes_then_creates [OF builderFor_fields(4) refl builderFor_fields(1,2)
      fake_update_refused(1)]
  by (auto simp: clusterOf_def fake_Delete_refused fake_Delete_done fake_Create_after_Delete)

text \<open>
  C10. When \<open>Update\<close> with force falls back after a failed remote update and the \<open>Delete\<close>
  of the fallback fails, \<open>Update\<close> returns a nil builder pointer, although the receiver is
  not nil, together with the error of \<open>Delete\<close>.
\<close>

theorem Update_force_returns_nil_on_Delete_error:
  assumes "fst (validate builder)"
    and "builder = Some b" and "Definition b = Some d" and "apiClient b = Some c"
    and "clientUpdate c d (cluster r) = (Some e, w1)"
    and "Delete builder \<lparr>cluster = w1, calls = calls r @ [CallUpdate d]\<rparr>
           = Some (Some de, builder2, r2)"
  shows "Update True builder r = Some ((None, Some de), builder2, r2) \<and> builder2 \<noteq> None"
proof -
  from Delete_returns [OF assms(2-4), of "\<lparr>cluster = w1, calls = calls r @ [CallUpdate d]\<rparr>"]
    assms(6)
  have "builder2 \<noteq> None" by auto
  moreover have "Update True builder r = Some ((None, Some de), builder2, r2)"
    unfolding Update_valid [OF assms(2-5)] assms(6) by simp
  ultimately show ?thesis by simp
qed

theorem Update_force_returns_nil_on_Delete_error_witness:
  "Update True (Some (builderFor fakeClient)) (clusterOf [])
     = Some ((None, Some (Errorf ''clusterlogforwarder cannot be deleted because it does not exist'')),
             Some (builderFor fakeClient),
             \<lparr>cluster = [], calls = [CallUpdate wantedCLF, CallGet (keyOf wantedCLF)]\<rparr>)"
proof -
  have upd: "clientUpdate fakeClient wantedCLF (cluster (clusterOf []))
      = (Some (StatusNotFound ''not found''), [])"
    by (simp add: fixture_defs)
  have "clientDelete fakeClient wantedCLF [] = (Some (StatusNotFound ''not found''), [])"
    by (simp add: fixture_defs)
  from Delete_valid [OF refl builderFor_fields(1,2) _ this,
      of "\<lparr>cluster = [], calls = calls (clusterOf []) @ [CallUpdate wantedCLF]\<rparr>"
         "Some (StatusNotFound ''not found'')" "\<lparr>Name = [], Namespace = [], Spec = 0\<rparr>"]
  have del: "Delete (Some (builderFor fakeClient))
        \<lparr>cluster = [], calls = calls (clusterOf []) @ [CallUpdate wantedCLF]\<rparr>
      = Some (Some (Errorf ''clusterlogforwarder cannot be deleted because it does not exist''),
              Some (builderFor fakeClient),
              \<lparr>cluster = [], calls = [CallUpdate wantedCLF, CallGet (keyOf wantedCLF)]\<rparr>)"
    by (simp add: fake_get_absent IsNotFound_def clusterOf_def builderFor_def)
  from Update_force_returns_nil_on_Delete_error [OF builderFor_fields(4) refl
      builderFor_fields(1,2) upd del]
  show ?thesis by simp
qed

subsection \<open>The Object field after a successful call\<close>

lemma success_is_valid:
  "Delete builder r = Some (None, builder', r') \<Longrightarrow> fst (validate builder)"
  "Create builder r = Some ((ret, None), builder', r') \<Longrightarrow> fst (validate builder)"
  "Update force builder r = Some ((ret, None), builder', r') \<Longrightarrow> fst (validate builder)"
proof -
  show "fst (validate builder)" if "Delete builder r = Some (None, builder', r')"
  proof (rule ccontr)
    assume n: "\<not> fst (validate builder)"
    from that invalid_builder_no_remote_call(4) [OF n, of r] validate_false_err [OF n]
    show False by simp
  qed
  show "fst (validate builder)" if "Create builder r = Some ((ret, None), builder', r')"
  proof (rule ccontr)
    assume n: "\<not> fst (validate builder)"
    from that invalid_builder_no_remote_call(3) [OF n, of r] validate_false_err [OF n]
    show False by simp
  qed
  show "fst (validate builder)" if "Update force builder r = Some ((ret, None), builder', r')"
  proof (rule ccontr)
    assume n: "\<not> fst (validate builder)"
    from that invalid_builder_no_remote_call(5) [OF n, of force r] validate_false_err [OF n]
    show False by simp
  qed
qed

lemma Update_success:
  assumes "builder = Some b" and "Definition b = Some d" and "apiClient b = Some c"
    and "Update force builder r = Some ((ret, None), builder', r')"
  shows "\<exists>obj. builder' = Some (b\<lparr>Object := obj\<rparr>)
           \<and> ((\<exists>pre. calls r' = pre @ [CallGet (keyOf d)])
              \<or> (\<exists>pre. calls r' = pre @ [CallCreate d]) \<and> obj = Some d
              \<or> calls r' = calls r @ [CallUpdate d] \<and> obj = Some d)"
proof -
  obtain uerr w1 where u: "clientUpdate c d (cluster r) = (uerr, w1)"
    by (metis surj_pair)
  let ?r1 = "\<lparr>cluster = w1, calls = calls r @ [CallUpdate d]\<rparr>"
  note upd = assms(4) [unfolded Update_valid [OF assms(1-3) u]]
  show ?thesis
  proof (cases "uerr \<noteq> None \<and> force")
    case False
    with upd show ?thesis
      by (auto split: if_splits)
  next
    case True
    from Delete_returns [OF assms(1-3), of ?r1]
    obtain derr obj r2 where
      del: "Delete builder ?r1 = Some (derr, Some (b\<lparr>Object := obj\<rparr>), r2)"
      by blast
    from upd True del have ok: "derr = None"
      and cr: "Create (Some (b\<lparr>Object := obj\<rparr>)) r2 = Some ((ret, None), builder', r')"
      by (auto split: if_splits)
    have "Definition (b\<lparr>Object := obj\<rparr>) = Some d" "apiClient (b\<lparr>Object := obj\<rparr>) = Some c"
      using assms(2,3) by simp_all
    from Create_returns [OF refl this, of r2] cr show ?thesis
      by auto
  qed
qed

text \<open>
  C7, as the code has it. After a successful \<open>Delete\<close> the \<open>Object\<close> field is nil. After
  a successful \<open>Create\<close> whose last remote call is the create, and after a successful
  \<open>Update\<close> whose last remote call is the update or the create of the forced fallback,
  \<open>Object\<close> equals \<open>Definition\<close>. (A \<open>Create\<close> that finds the resource present succeeds
  without a remote create and leaves in \<open>Object\<close> what \<open>Exists\<close> fetched.)
\<close>

theorem Object_after_success:
  "(Delete builder r = Some (None, builder', r')
      \<longrightarrow> (\<exists>b'. builder' = Some b' \<and> Object b' = None))
   \<and> (Create builder r = Some ((ret, None), builder', r') \<and> (\<exists>x. last (calls r') = CallCreate x)
      \<longrightarrow> (\<exists>b'. builder' = Some b' \<and> Object b' = Definition b'))
   \<and> (Update force builder r = Some ((ret, None), builder', r')
        \<and> (\<exists>x. last (calls r') = CallCreate x \<or> last (calls r') = CallUpdate x)
      \<longrightarrow> (\<exists>b'. builder' = Some b' \<and> Object b' = Definition b'))"
proof (intro conjI impI)
  assume del: "Delete builder r = Some (None, builder', r')"
  from success_is_valid(1) [OF del]
  obtain b d c where v: "builder = Some b" "Definition b = Some d" "apiClient b = Some c"
    by (auto simp: validate_true_iff)
  from Delete_returns [OF v, of r] del
  show "\<exists>b'. builder' = Some b' \<and> Object b' = None"
    by auto
next
  assume "Create builder r = Some ((ret, None), builder', r') \<and> (\<exists>x. last (calls r') = CallCreate x)"
  then have cr: "Create builder r = Some ((ret, None), builder', r')"
    and lc: "\<exists>x. last (calls r') = CallCreate x"
    by simp_all
  from success_is_valid(2) [OF cr]
  obtain b d c where v: "builder = Some b" "Definition b = Some d" "apiClient b = Some c"
    by (auto simp: validate_true_iff)
  from Create_returns [OF v, of r] cr lc v(2)
  show "\<exists>b'. builder' = Some b' \<and> Object b' = Definition b'"
    by auto
next
  assume "Update force builder r = Some ((ret, None), builder', r')
        \<and> (\<exists>x. last (calls r') = CallCreate x \<or> last (calls r') = CallUpdate x)"
  then have up: "Update force builder r = Some ((ret, None), builder', r')"
    and lc: "\<exists>x. last (calls r') = CallCreate x \<or> last (calls r') = CallUpdate x"
    by simp_all
  from success_is_valid(3) [OF up]
  obtain b d c where v: "builder = Some b" "Definition b = Some d" "apiClient b = Some c"
    by (auto simp: validate_true_iff)
  from Update_success [OF v up] lc v(2)
  show "\<exists>b'. builder' = Some b' \<and> Object b' = Definition b'"
    by auto
qed

lemma fake_Delete_present:
  "Delete (Some (builderFor fakeClient)) (clusterOf [liveCLF])
     = Some (None, Some (builderFor fakeClient),
             \<lparr>cluster = [], calls = [CallGet (keyOf wantedCLF), CallDelete wantedCLF]\<rparr>)"
proof -
  have "clientDelete fakeClient wantedCLF [liveCLF] = (None, [])"
    by (simp add: fixture_defs)
  from Delete_valid [OF refl builderFor_fields(1,2) _ this, of "clusterOf [liveCLF]" None liveCLF]
  show ?thesis
    by (simp add: fake_get_present clusterOf_def builderFor_def)
qed

lemma fake_Create_absent:
  "Create (Some (builderFor fakeClient)) (clusterOf [])
     = Some ((Some ((builderFor fakeClient)\<lparr>Object := Some wantedCLF\<rparr>), None),
             Some ((builderFor fakeClient)\<lparr>Object := Some wantedCLF\<rparr>),
             \<lparr>cluster = [wantedCLF], calls = [CallGet (keyOf wantedCLF), CallCreate wantedCLF]\<rparr>)"
proof -
  have "clientCreate fakeClient wantedCLF [] = (None, [wantedCLF])"
    by (simp add: fixture_defs)
  from Create_valid [OF refl builderFor_fields(1,2) _ this, of "clusterOf []"
      "Some (StatusNotFound ''not found'')" "\<lparr>Name = [], Namespace = [], Spec = 0\<rparr>"]
  show ?thesis
    by (simp add: fake_get_absent IsNotFound_def clusterOf_def)
qed

lemma fake_Create_present:
  "Create (Some (builderFor fakeClient)) (clusterOf [liveCLF])
     = Some ((Some ((builderFor fakeClient)\<lparr>Object := Some liveCLF\<rparr>), None),
             Some ((builderFor fakeClient)\<lparr>Object := Some liveCLF\<rparr>),
             \<lparr>cluster = [liveCLF], calls = [CallGet (keyOf wantedCLF)]\<rparr>)"
proof -
  obtain cerr w2 where "clientCreate fakeClient wantedCLF [liveCLF] = (cerr, w2)"
    by (metis surj_pair)
  from Create_valid [OF refl builderFor_fields(1,2) _ this, of "clusterOf [liveCLF]" None liveCLF]
  show ?thesis
    by (simp add: fake_get_present clusterOf_def)
qed

lemma fake_Update_forced:
  "Update True (Some (builderFor conflictClient)) (clusterOf [liveCLF])
     = Some ((Some ((builderFor conflictClient)\<lparr>Object := Some wantedCLF\<rparr>), None),
             Some ((builderFor conflictClient)\<lparr>Object := Some wantedCLF\<rparr>),
             \<lparr>cluster = [wantedCLF],
              calls = [CallUpdate wantedCLF, CallGet (keyOf wantedCLF), CallDelete wantedCLF,
                       CallGet (keyOf wantedCLF), CallCreate wantedCLF]\<rparr>)"
  unfolding Update_valid [OF refl builderFor_fields(1,2) fake_update_refused(1)]
  by (simp add: clusterOf_def fake_Delete_done fake_Create_after_Delete)

theorem Object_after_success_witness:
  "(\<exists>b' r'. Delete (Some (builderFor fakeClient)) (clusterOf [liveCLF]) = Some (None, Some b', r')
        \<and> Object b' = None)
   \<and> (\<exists>ret b' r'. Create (Some (builderFor fakeClient)) (clusterOf []) = Some ((ret, None), Some b', r')
        \<and> Object b' = Definition b')
   \<and> (\<exists>ret b' r'. Update True (Some (builderFor conflictClient)) (clusterOf [liveCLF])
          = Some ((ret, None), Some b', r')
        \<and> Object b' = Definition b')"
proof (intro conjI)
  note del = fake_Delete_present
  from Object_after_success [where builder = "Some (builderFor fakeClient)"
      and r = "clusterOf [liveCLF]" and builder' = "Some (builderFor fakeClient)"
      and r' = "\<lparr>cluster = [], calls = [CallGet (keyOf wantedCLF), CallDelete wantedCLF]\<rparr>",
      THEN conjunct1, rule_format, OF del]
  obtain b' where "Some (builderFor fakeClient) = Some b'" and "Object b' = None"
    by blast
  with del
  show "\<exists>b' r'. Delete (Some (builderFor fakeClient)) (clusterOf [liveCLF]) = Some (None, Some b', r')
        \<and> Object b' = None"
    by blast
next
  note cr = fake_Create_absent
  have lc: "\<exists>x. last (calls \<lparr>cluster = [wantedCLF],
                calls = [CallGet (keyOf wantedCLF), CallCreate wantedCLF :: nat call]\<rparr>)
              = CallCreate x"
    by simp
  from Object_after_success [where builder = "Some (builderFor fakeClient)"
      and r = "clusterOf []"
      and ret = "Some ((builderFor fakeClient)\<lparr>Object := Some wantedCLF\<rparr>)"
      and builder' = "Some ((builderFor fakeClient)\<lparr>Object := Some wantedCLF\<rparr>)"
      and r' = "\<lparr>cluster = [wantedCLF],
                calls = [CallGet (keyOf wantedCLF), CallCreate wantedCLF]\<rparr>",
      THEN conjunct2, THEN conjunct1, rule_format, OF conjI [OF cr lc]]
  obtain b' where "Some ((builderFor fakeClient)\<lparr>Object := Some wantedCLF\<rparr>) = Some b'"
    and "Object b' = Definition b'"
    by blast
  with cr
  show "\<exists>ret b' r'. Create (Some (builderFor fakeClient)) (clusterOf []) = Some ((ret, None), Some b', r')
        \<and> Object b' = Definition b'"
    by blast
next
  note up = fake_Update_forced
  have lc: "\<exists>x. last (calls \<lparr>cluster = [wantedCLF],
                calls = [CallUpdate wantedCLF, CallGet (keyOf wantedCLF), CallDelete wantedCLF,
                         CallGet (keyOf wantedCLF), CallCreate wantedCLF :: nat call]\<rparr>)
                = CallCreate x
              \<or> last (calls \<lparr>cluster = [wantedCLF],
                calls = [CallUpdate wantedCLF, CallGet (keyOf wantedCLF), CallDelete wantedCLF,
                         CallGet (keyOf wantedCLF), CallCreate wantedCLF]\<rparr>)
                = CallUpdate x"
    by simp
  from Object_after_success [where force = True
      and builder = "Some (builderFor conflictClient)" and r = "clusterOf [liveCLF]"
      and ret = "Some ((builderFor conflictClient)\<lparr>Object := Some wantedCLF\<rparr>)"
      and builder' = "Some ((builderFor conflictClient)\<lparr>Object := Some wantedCLF\<rparr>)"
      and r' = "\<lparr>cluster = [wantedCLF],
                calls = [CallUpdate wantedCLF, CallGet (keyOf wantedCLF), CallDelete wantedCLF,
                         CallGet (keyOf wantedCLF), CallCreate wantedCLF]\<rparr>",
      THEN conjunct2, THEN conjunct2, rule_format, OF conjI [OF up lc]]
  obtain b' where "Some ((builderFor conflictClient)\<lparr>Object := Some wantedCLF\<rparr>) = Some b'"
    and "Object b' = Definition b'"
    by blast
  with up
  show "\<exists>ret b' r'. Update True (Some (builderFor conflictClient)) (clusterOf [liveCLF])
          = Some ((ret, None), Some b', r')
        \<and> Object b' = Definition b'"
    by blast
qed

text \<open>
  C7 as the specification states it fails: \<open>Create\<close> on a resource that is already in
  the cluster succeeds, and \<open>Object\<close> is then the object fetched from the cluster, which
  differs from \<open>Definition\<close>.
\<close>

theorem Create_on_present_resource_counterexample:
  "Create (Some (builderFor fakeClient)) (clusterOf [liveCLF])
     = Some ((Some ((builderFor fakeClient)\<lparr>Object := Some liveCLF\<rparr>), None),
             Some ((builderFor fakeClient)\<lparr>Object := Some liveCLF\<rparr>),
             \<lparr>cluster = [liveCLF], calls = [CallGet (keyOf wantedCLF)]\<rparr>)
   \<and> Object ((builderFor fakeClient)\<lparr>Object := Some liveCLF\<rparr>)
       \<noteq> Definition ((builderFor fakeClient)\<lparr>Object := Some liveCLF\<rparr>)"
proof
  show "Create (Some (builderFor fakeClient)) (clusterOf [liveCLF])
     = Some ((Some ((builderFor fakeClient)\<lparr>Object := Some liveCLF\<rparr>), None),
             Some ((builderFor fakeClient)\<lparr>Object := Some liveCLF\<rparr>),
             \<lparr>cluster = [liveCLF], calls = [CallGet (keyOf wantedCLF)]\<rparr>)"
    by (rule fake_Create_present)
  show "Object ((builderFor fakeClient)\<lparr>Object := Some liveCLF\<rparr>)
       \<noteq> Definition ((builderFor fakeClient)\<lparr>Object := Some liveCLF\<rparr>)"
    by (simp add: builderFor_def wantedCLF_def liveCLF_def)
qed

subsection \<open>Validation and the recorded error message\<close>

text \<open>
  C1. The claim is that no remote call is issued unless builder, definition, client and
  name and namespace are valid, and that \<open>PullClusterLogForwarder\<close> with an empty name or
  namespace fails before any remote fetch. The code records the message for an empty name
  or namespace in \<open>errorMsg\<close>, but \<open>validate\<close> never reads that field: with a client that
  is not nil, \<open>PullClusterLogForwarder\<close> with an empty name, or with an empty namespace,
  issues the remote fetch for that key. (For a nil builder, definition or client the claim
  holds: \<open>invalid_builder_no_remote_call\<close>.)
\<close>

theorem Pull_with_empty_name_fetches:
  "(\<exists>res r1. PullClusterLogForwarder (Some (c :: ('s::zero, 'w) Settings)) [] namespace r
          = Some (res, r1)
        \<and> calls r1 = calls r @ [CallGet (ObjectKey [] namespace)])
   \<and> (\<exists>res r1. PullClusterLogForwarder (Some c) name [] r = Some (res, r1)
        \<and> calls r1 = calls r @ [CallGet (ObjectKey name [])])"
proof -
  have run: "\<exists>res r1. PullClusterLogForwarder (Some c) n ns r = Some (res, r1)
        \<and> calls r1 = calls r @ [CallGet (ObjectKey n ns)]" for n ns
  proof -
    let ?d = "\<lparr>Name = n, Namespace = ns, Spec = 0 :: 's\<rparr>"
    let ?m = "if ns = [] then ''clusterlogforwarder 'namespace' cannot be empty''
              else if n = [] then ''clusterlogforwarder 'name' cannot be empty'' else []"
    let ?b = "\<lparr>Definition = Some ?d, Object = None, apiClient = Some c, errorMsg = ?m\<rparr>"
    obtain gerr fetched w where g: "clientGet c (keyOf ?d) (cluster r) = ((gerr, fetched), w)"
      by (metis surj_pair)
    have ex: "Exists (Some ?b) r
        = Some (gerr = None \<or> \<not> IsNotFound gerr,
                Some (?b\<lparr>Object := (if gerr = None then Some fetched else None)\<rparr>),
                \<lparr>cluster = w, calls = calls r @ [CallGet (ObjectKey n ns)]\<rparr>)"
      using Exists_valid [OF refl _ _ g, of ?b] by (simp add: keyOf_def)
    have pull: "PullClusterLogForwarder (Some c) n ns r
        = do {
            (ex, builder3, r1) \<leftarrow> Exists (Some ?b) r;
            if \<not> ex
            then Some ((None, Some (Errorf (''clusterlogforwarder object '' @ n
                          @ '' doesn't exist in namespace '' @ ns))), r1)
            else do {
              b3 \<leftarrow> builder3;
              Some ((Object b3, None), r1)
            }
          }"
      by (simp add: PullClusterLogForwarder_def Let_def)
    show ?thesis
      unfolding pull ex by simp
  qed
  from run [of "[]" namespace] run [of name "[]"] show ?thesis
    by simp
qed

theorem Pull_with_empty_name_fetches_witness:
  "PullClusterLogForwarder (Some fakeClient) [] ''openshift-logging'' (clusterOf [liveCLF])
     = Some ((None, Some (Errorf
                ''clusterlogforwarder object  doesn't exist in namespace openshift-logging'')),
             \<lparr>cluster = [liveCLF], calls = [CallGet (ObjectKey [] ''openshift-logging'')]\<rparr>)"
proof -
  have "Exists (Some \<lparr>Definition = Some \<lparr>Name = [], Namespace = ''openshift-logging'', Spec = 0\<rparr>,
                       Object = None, apiClient = Some fakeClient,
                       errorMsg = ''clusterlogforwarder 'name' cannot be empty''\<rparr>)
          (clusterOf [liveCLF])
        = Some (False,
                Some \<lparr>Definition = Some \<lparr>Name = [], Namespace = ''openshift-logging'', Spec = 0\<rparr>,
                      Object = None, apiClient = Some fakeClient,
                      errorMsg = ''clusterlogforwarder 'name' cannot be empty''\<rparr>,
                \<lparr>cluster = [liveCLF], calls = [CallGet (ObjectKey [] ''openshift-logging'')]\<rparr>)"
    using Exists_valid [OF refl, of _
        "\<lparr>Name = [], Namespace = ''openshift-logging'', Spec = 0\<rparr>" fakeClient
        "clusterOf [liveCLF]" "Some (StatusNotFound ''not found'')"
        "\<lparr>Name = [], Namespace = [], Spec = 0\<rparr>" "[liveCLF]"]
    by (simp add: fixture_defs IsNotFound_def)
  with Pull_with_empty_name_fetches [of fakeClient "''openshift-logging''" "clusterOf [liveCLF]"]
  show ?thesis
    by (simp add: PullClusterLogForwarder_def Let_def)
qed

end
